theory Spec2Isabelle
  imports Complex_Main "HOL-Library.AList" "HOL-Library.Char_ord" "HOL-Library.List_Lexorder"
begin

section \<open>Python values, errors and containers\<close>

text \<open>
  The module \<^verbatim>\<open>data_wrangling.py\<close> has three functions: \<^verbatim>\<open>read_tess_info\<close> (the
  Catalog Builder), \<^verbatim>\<open>crossmatch_gaia\<close> (the Cross-Match Merger) and
  \<^verbatim>\<open>read_tess_lightcurve\<close> (the Observation Reader). Each is embedded statement by
  statement. Every exception a statement can raise is a value \<open>Inl e\<close> of the result;
  the file system, the module's global names and the libraries' functions (\<^verbatim>\<open>glob\<close>,
  the builtin \<^verbatim>\<open>int\<close>, \<^verbatim>\<open>pd.read_csv\<close>, the dtype promotion of \<^verbatim>\<open>pd.concat\<close>,
  \<^verbatim>\<open>fits.open\<close>) are parameters. A string is the list of its UTF-8 bytes; splitting at
  an ASCII separator gives the same tokens on bytes as on code points.

  The body of \<^verbatim>\<open>crossmatch_gaia\<close> is indented by three columns under a docstring
  indented by four, which Python's tokenizer rejects; the embedding follows the statements
  of the body as they are written.
\<close>

datatype error = NameError | IndexError | KeyError | ValueError | TypeError
  | AttributeError | OSError

text \<open>
  A numeric cell of an array: a finite number, an infinity or NaN. The code does no
  arithmetic on cells, it only compares them and asks whether they are finite, so a finite
  cell is carried as a rational; the cell of an integer column is a finite integer.
\<close>

datatype float64 = Finite rat | PosInf | NegInf | NaN

datatype pyval = PyStr string | PyInt int | PyFloat float64 | PyArray "float64 list"

text \<open>A Python dict keeps insertion order: \<^verbatim>\<open>d[k] = v\<close> replaces in place or appends.\<close>

type_synonym dict = "(string \<times> pyval) list"

definition setitem :: "dict \<Rightarrow> string \<Rightarrow> pyval \<Rightarrow> dict" where
  "setitem d k v = AList.update k v d"

text \<open>\<^verbatim>\<open>d[k]\<close> on a dict: a missing key raises KeyError.\<close>

definition dict_get :: "dict \<Rightarrow> string \<Rightarrow> error + pyval" where
  "dict_get d k = (case map_of d k of None \<Rightarrow> Inl KeyError | Some v \<Rightarrow> Inr v)"

text \<open>A pandas DataFrame: the column names and the rows, each row aligned to the columns.\<close>

record dataframe =
  columns :: "string list"
  rows :: "pyval list list"

definition and_then :: "error + 'a \<Rightarrow> ('a \<Rightarrow> error + 'b) \<Rightarrow> error + 'b" where
  "and_then m f = (case m of Inl e \<Rightarrow> Inl e | Inr x \<Rightarrow> f x)"

text \<open>\<^verbatim>\<open>xs[i]\<close> on a Python list: a negative index counts from the end, out of range raises.\<close>

definition getitem :: "'a list \<Rightarrow> int \<Rightarrow> error + 'a" where
  "getitem xs i =
     (if 0 \<le> i \<and> i < int (length xs) then Inr (xs ! nat i)
      else if i < 0 \<and> - int (length xs) \<le> i then Inr (xs ! nat (int (length xs) + i))
      else Inl IndexError)"

text \<open>\<^verbatim>\<open>s.split(sep)\<close> for a one-character separator: always at least one token.\<close>

fun split :: "char \<Rightarrow> string \<Rightarrow> string list" where
  "split sep [] = [[]]"
| "split sep (c # cs) =
     (if c = sep then [] # split sep cs
      else (case split sep cs of [] \<Rightarrow> [[c]] | w # ws \<Rightarrow> (c # w) # ws))"

subsection \<open>The builtin \<^verbatim>\<open>int\<close> on a string\<close>

text \<open>
  \<^verbatim>\<open>np.int\<close> is NumPy's alias of the builtin \<^verbatim>\<open>int\<close>, a function of the language
  and a parameter \<open>py_int\<close> of the model: \<open>None\<close> where \<^verbatim>\<open>int\<close> raises ValueError.

  On a string of ASCII characters \<^verbatim>\<open>int\<close> is the function \<open>ascii_int\<close>: it strips the
  whitespace characters 9 to 13 and 32, reads an optional sign and then decimal digits,
  where single underscores may stand between digits, and rejects anything else. Beyond
  ASCII \<^verbatim>\<open>int\<close> accepts more (other whitespace, other decimal digits), so
  \<open>ascii_int\<close> stands for \<^verbatim>\<open>int\<close> only at the ASCII examples below.
\<close>

definition py_isspace :: "char \<Rightarrow> bool" where
  "py_isspace c = (let n = (of_char c :: nat) in (9 \<le> n \<and> n \<le> 13) \<or> n = 32)"

definition strip :: "string \<Rightarrow> string" where
  "strip s = rev (dropWhile py_isspace (rev (dropWhile py_isspace s)))"

definition digit_of :: "char \<Rightarrow> int option" where
  "digit_of c = (let n = (of_char c :: nat) in if 48 \<le> n \<and> n \<le> 57 then Some (int n - 48) else None)"

fun parse_digits :: "int \<Rightarrow> string \<Rightarrow> int option" where
  "parse_digits acc [] = Some acc"
| "parse_digits acc [c] =
     (case digit_of c of None \<Rightarrow> None | Some v \<Rightarrow> Some (10 * acc + v))"
| "parse_digits acc (c # d # ds) =
     (if c = CHR ''_''
      then (case digit_of d of None \<Rightarrow> None | Some v \<Rightarrow> parse_digits (10 * acc + v) ds)
      else (case digit_of c of None \<Rightarrow> None | Some v \<Rightarrow> parse_digits (10 * acc + v) (d # ds)))"

definition parse_unsigned :: "string \<Rightarrow> int option" where
  "parse_unsigned s =
     (case s of [] \<Rightarrow> None
      | d # ds \<Rightarrow> (case digit_of d of None \<Rightarrow> None | Some v \<Rightarrow> parse_digits v ds))"

definition ascii_int :: "string \<Rightarrow> int option" where
  "ascii_int s =
     (case strip s of [] \<Rightarrow> None
      | c # cs \<Rightarrow>
          if c = CHR ''-'' then map_option uminus (parse_unsigned cs)
          else if c = CHR ''+'' then parse_unsigned cs
          else parse_unsigned (c # cs))"

definition np_int :: "(string \<Rightarrow> int option) \<Rightarrow> string \<Rightarrow> error + int" where
  "np_int py_int s = (case py_int s of None \<Rightarrow> Inl ValueError | Some n \<Rightarrow> Inr n)"

section \<open>The Catalog Builder: \<^verbatim>\<open>read_tess_info\<close>\<close>

text \<open>
  The body of the loop over the globbed paths: the dict \<^verbatim>\<open>single_info\<close> of one path,
  filled key by key in the order of the source, so that the first statement that raises
  decides the error.
\<close>

definition single_info :: "(string \<Rightarrow> int option) \<Rightarrow> string \<Rightarrow> error + dict" where
  "single_info py_int f =
     (let fsplit = split CHR ''/'' f in
      and_then (getitem fsplit (- 2)) (\<lambda>subdir.
      let d1 = setitem [] ''subdir'' (PyStr subdir) in
      and_then (getitem fsplit (- 1)) (\<lambda>filename.
      let d2 = setitem d1 ''filename'' (PyStr filename);
          fname_split = split CHR ''-'' filename in
      and_then (getitem fname_split 0) (\<lambda>daterange.
      let d3 = setitem d2 ''daterange'' (PyStr daterange) in
      and_then (getitem fname_split 1) (\<lambda>sector_no.
      let d4 = setitem d3 ''sector_no'' (PyStr sector_no) in
      and_then (getitem fname_split 2) (\<lambda>tok.
      and_then (np_int py_int tok) (\<lambda>tess_id.
      let d5 = setitem d4 ''tess_id'' (PyInt tess_id) in
      and_then (getitem fname_split 3) (\<lambda>cadence.
      Inr (setitem d5 ''cadence'' (PyStr cadence))))))))))"

text \<open>The loop: \<^verbatim>\<open>tess_info.append(single_info)\<close> per path; an exception leaves the loop.\<close>

fun loop :: "(string \<Rightarrow> int option) \<Rightarrow> string list \<Rightarrow> dict list \<Rightarrow> error + dict list" where
  "loop py_int [] tess_info = Inr tess_info"
| "loop py_int (f # fs) tess_info =
     (case single_info py_int f of
        Inl e \<Rightarrow> Inl e
      | Inr si \<Rightarrow> loop py_int fs (tess_info @ [si]))"

text \<open>
  \<^verbatim>\<open>pd.DataFrame(list_of_dicts)\<close>: the columns are the keys in order of first
  appearance, a key a dict lacks gives NaN, and the empty list gives the empty frame.
\<close>

fun union_keys :: "string list \<Rightarrow> string list \<Rightarrow> string list" where
  "union_keys acc [] = acc"
| "union_keys acc (k # ks) = union_keys (if k \<in> set acc then acc else acc @ [k]) ks"

definition reindex_dict :: "string list \<Rightarrow> dict \<Rightarrow> pyval list" where
  "reindex_dict cols d =
     map (\<lambda>c. case map_of d c of None \<Rightarrow> PyFloat NaN | Some v \<Rightarrow> v) cols"

definition pd_DataFrame :: "dict list \<Rightarrow> dataframe" where
  "pd_DataFrame ds =
     (let cols = union_keys [] (concat (map (map fst) ds))
      in \<lparr>columns = cols, rows = map (reindex_dict cols) ds\<rparr>)"

text \<open>
  \<^verbatim>\<open>glob.glob(pattern, recursive=True)\<close> is the file system's answer to a pattern and
  a parameter of the model; it returns the empty list when nothing matches.
\<close>

definition read_tess_info ::
  "(string \<Rightarrow> int option) \<Rightarrow> (string \<Rightarrow> string list) \<Rightarrow> string \<Rightarrow> error + dataframe"
where
  "read_tess_info py_int glob datadir =
     (let datafiles = glob (datadir @ ''**/*.fits'') in
      case loop py_int datafiles [] of
        Inl e \<Rightarrow> Inl e
      | Inr tess_info \<Rightarrow> Inr (pd_DataFrame tess_info))"

section \<open>The Cross-Match Merger: \<^verbatim>\<open>crossmatch_gaia\<close>\<close>

text \<open>
  \<^verbatim>\<open>pd.read_csv\<close> is a parameter: what reading each path gives, a table or the
  exception of an unreadable file. The loop appends each table to \<^verbatim>\<open>gaiamatch\<close>.
\<close>

fun read_all ::
  "(string \<Rightarrow> error + dataframe) \<Rightarrow> string list \<Rightarrow> dataframe list \<Rightarrow> error + dataframe list"
where
  "read_all read_csv [] gaiamatch = Inr gaiamatch"
| "read_all read_csv (gf # gfs) gaiamatch =
     (case read_csv gf of Inl e \<Rightarrow> Inl e | Inr gm \<Rightarrow> read_all read_csv gfs (gaiamatch @ [gm]))"

text \<open>
  \<^verbatim>\<open>pd.concat(objs, ignore_index=True, sort=True)\<close>: no objects raise ValueError;
  otherwise the columns are the sorted union of the frames' columns and the rows are the
  frames' rows one frame after the other, each row realigned to the new columns with NaN
  where its frame has no such column.

  pandas gives every column of the result one dtype and casts the cells the column
  takes over to it: an integer column that receives a NaN becomes float64 and its
  integers become floats. That promotion is the parameter \<open>promote\<close>:
  \<open>promote objs c v\<close> is the cell that \<open>v\<close> becomes in column \<open>c\<close> of the
  concatenation of \<open>objs\<close>.
\<close>

definition cell_of :: "string list \<Rightarrow> pyval list \<Rightarrow> string \<Rightarrow> pyval" where
  "cell_of cols r c = (case map_of (zip cols r) c of None \<Rightarrow> PyFloat NaN | Some v \<Rightarrow> v)"

definition reindex :: "(string \<Rightarrow> pyval \<Rightarrow> pyval) \<Rightarrow> string list \<Rightarrow> dataframe \<Rightarrow> pyval list list" where
  "reindex cast cols df =
     map (\<lambda>r. map (\<lambda>c. if c \<in> set (columns df) then cast c (cell_of (columns df) r c)
                        else PyFloat NaN) cols)
       (rows df)"

definition pd_concat ::
  "(dataframe list \<Rightarrow> string \<Rightarrow> pyval \<Rightarrow> pyval) \<Rightarrow> dataframe list \<Rightarrow> error + dataframe"
where
  "pd_concat promote objs =
     (if objs = [] then Inl ValueError
      else let cols = sort (union_keys [] (concat (map columns objs)))
           in Inr \<lparr>columns = cols, rows = concat (map (reindex (promote objs) cols) objs)\<rparr>)"

text \<open>
  \<^verbatim>\<open>pd.merge(left, right, left_on=..., right_on=...)\<close>, an inner join by default. It
  first validates both operands: anything that is not a DataFrame raises TypeError. A key
  column that is missing raises KeyError. The joined rows follow the order of the left
  rows; column names the two frames share get the suffixes \<^verbatim>\<open>_x\<close> and \<^verbatim>\<open>_y\<close>.
\<close>

datatype pyobj = DataFrame dataframe | PyList "dataframe list"

definition inner_join :: "dataframe \<Rightarrow> dataframe \<Rightarrow> string \<Rightarrow> string \<Rightarrow> dataframe" where
  "inner_join l r left_on right_on =
     \<lparr>columns = map (\<lambda>c. if c \<in> set (columns r) then c @ ''_x'' else c) (columns l)
               @ map (\<lambda>c. if c \<in> set (columns l) then c @ ''_y'' else c) (columns r),
      rows = concat (map (\<lambda>lr. map (\<lambda>rr. lr @ rr)
               (filter (\<lambda>rr. cell_of (columns l) lr left_on = cell_of (columns r) rr right_on)
                  (rows r))) (rows l))\<rparr>"

definition pd_merge :: "pyobj \<Rightarrow> pyobj \<Rightarrow> string \<Rightarrow> string \<Rightarrow> error + dataframe" where
  "pd_merge left right left_on right_on =
     (case left of PyList _ \<Rightarrow> Inl TypeError
      | DataFrame l \<Rightarrow>
          (case right of PyList _ \<Rightarrow> Inl TypeError
           | DataFrame r \<Rightarrow>
               if left_on \<in> set (columns l) \<and> right_on \<in> set (columns r)
               then Inr (inner_join l r left_on right_on)
               else Inl KeyError))"

text \<open>
  The function: \<^verbatim>\<open>gaia_merged\<close> is computed and then not used; the second argument of
  \<^verbatim>\<open>pd.merge\<close> is \<^verbatim>\<open>gaiamatch\<close>, the Python list of the tables.
\<close>

definition crossmatch_gaia ::
  "(dataframe list \<Rightarrow> string \<Rightarrow> pyval \<Rightarrow> pyval) \<Rightarrow> (string \<Rightarrow> error + dataframe) \<Rightarrow>
   dataframe \<Rightarrow> string list \<Rightarrow> error + dataframe"
where
  "crossmatch_gaia promote read_csv tess_info gaia_files =
     and_then (read_all read_csv gaia_files []) (\<lambda>gaiamatch.
     and_then (pd_concat promote gaiamatch) (\<lambda>gaia_merged.
     pd_merge (DataFrame tess_info) (PyList gaiamatch) ''tess_id'' ''ticid''))"

section \<open>The Observation Reader: \<^verbatim>\<open>read_tess_lightcurve\<close>\<close>

text \<open>
  An opened FITS file is a list of HDUs, each with a header and possibly a table. The
  table is a record array: every record has a cell for each of the table's columns, so
  all fields of one table have the same length.
\<close>

record fits_rec =
  names :: "string list"
  recs :: "(string \<Rightarrow> float64) list"

record hdu =
  header :: "string \<rightharpoonup> pyval"
  data :: "fits_rec option"

definition header_get :: "hdu \<Rightarrow> string \<Rightarrow> error + pyval" where
  "header_get h kw = (case header h kw of None \<Rightarrow> Inl KeyError | Some v \<Rightarrow> Inr v)"

definition field :: "fits_rec \<Rightarrow> string \<Rightarrow> error + float64 list" where
  "field t name =
     (if name \<in> set (names t) then Inr (map (\<lambda>r. r name) (recs t)) else Inl KeyError)"

text \<open>\<^verbatim>\<open>hdulist[1].data.field(name)\<close>; an HDU without a table has \<^verbatim>\<open>data\<close> None.\<close>

definition hdu_field :: "hdu list \<Rightarrow> string \<Rightarrow> error + float64 list" where
  "hdu_field hdulist name =
     and_then (getitem hdulist 1) (\<lambda>h.
       case data h of None \<Rightarrow> Inl AttributeError | Some t \<Rightarrow> field t name)"

definition isfinite :: "float64 \<Rightarrow> bool" where
  "isfinite x = (case x of Finite _ \<Rightarrow> True | _ \<Rightarrow> False)"

definition np_eq :: "float64 \<Rightarrow> int \<Rightarrow> bool" where
  "np_eq x q = (x = Finite (of_int q))"

text \<open>\<^verbatim>\<open>(quality == quality_flag) & np.isfinite(flux)\<close>, element by element.\<close>

definition mask_of :: "float64 list \<Rightarrow> int \<Rightarrow> float64 list \<Rightarrow> bool list" where
  "mask_of quality quality_flag flux =
     map (\<lambda>(q, x). np_eq q quality_flag \<and> isfinite x) (zip quality flux)"

text \<open>\<^verbatim>\<open>a[mask]\<close> with a boolean array: the cells where the mask is true, in order.\<close>

definition bool_index :: "'a list \<Rightarrow> bool list \<Rightarrow> error + 'a list" where
  "bool_index xs msk =
     (if length msk = length xs then Inr (map fst (filter snd (zip xs msk)))
      else Inl IndexError)"

text \<open>The fifteen header reads, in the order of the source: key of the dict, header card.\<close>

definition header_keys :: "(string \<times> string) list" where
  "header_keys =
     [(''tstart'', ''TSTART''), (''tstop'', ''TSTOP''), (''date_obs'', ''DATE-OBS''),
      (''date_end'', ''DATE-END''), (''ticid'', ''TICID''), (''ra'', ''RA_OBJ''),
      (''dec'', ''DEC_OBJ''), (''pmra'', ''PMRA''), (''pmdec'', ''PMDEC''),
      (''pmtotal'', ''PMTOTAL''), (''tessmag'', ''TESSMAG''), (''teff'', ''TEFF''),
      (''log_g'', ''LOGG''), (''mh'', ''MH''), (''radius'', ''RADIUS'')]"

fun read_header :: "hdu list \<Rightarrow> (string \<times> string) list \<Rightarrow> dict \<Rightarrow> error + dict" where
  "read_header hdulist [] d = Inr d"
| "read_header hdulist ((k, kw) # ks) d =
     (case getitem hdulist 0 of Inl e \<Rightarrow> Inl e
      | Inr h \<Rightarrow> (case header_get h kw of Inl e \<Rightarrow> Inl e
                  | Inr v \<Rightarrow> read_header hdulist ks (setitem d k v)))"

text \<open>
  The function. The name \<^verbatim>\<open>fname\<close> in \<^verbatim>\<open>fits.open(fname)\<close> is neither a parameter nor
  a local: Python looks it up among the module's globals when the call runs, and raises
  NameError when it is unbound (the module binds no such name). The first parameter of
  the model is that binding. \<^verbatim>\<open>fits.open\<close> is the second: what opening each path
  gives. The parameter \<^verbatim>\<open>filename\<close> is not read by the body. The two keys
  \<^verbatim>\<open>flux_key\<close> and \<^verbatim>\<open>flux_err_key\<close> are computed from \<^verbatim>\<open>pdc\<close> and not read again:
  the fields are named by literals.
\<close>

definition read_tess_lightcurve ::
  "string option \<Rightarrow> (string \<Rightarrow> error + hdu list) \<Rightarrow> string \<Rightarrow> bool \<Rightarrow> int \<Rightarrow> error + dict"
where
  "read_tess_lightcurve fname fits_open filename pdc quality_flag =
     and_then (case fname of None \<Rightarrow> Inl NameError | Some p \<Rightarrow> fits_open p) (\<lambda>hdulist.
     and_then (read_header hdulist header_keys []) (\<lambda>d.
     let flux_key = ''SAP_FLUX'';
         flux_err_key = ''SAP_FLUX_ERR'';
         flux_key = (if pdc then ''PDC'' @ flux_key else flux_key);
         flux_err_key = (if pdc then ''PDC'' @ flux_err_key else flux_err_key) in
     and_then (hdu_field hdulist ''TIME'') (\<lambda>time_all.
     and_then (hdu_field hdulist ''PDCSAP_FLUX'') (\<lambda>flux_all.
     and_then (hdu_field hdulist ''PDCSAP_FLUX_ERR'') (\<lambda>flux_err_all.
     and_then (hdu_field hdulist ''QUALITY'') (\<lambda>quality_all.
     let time = drop 1 time_all;
         flux = drop 1 flux_all;
         flux_err = drop 1 flux_err_all;
         quality = drop 1 quality_all;
         msk = mask_of quality quality_flag flux in
     and_then (bool_index time msk) (\<lambda>t.
     and_then (bool_index flux msk) (\<lambda>fl.
     and_then (bool_index flux_err msk) (\<lambda>fe.
     Inr (setitem (setitem (setitem d ''time'' (PyArray t)) ''flux'' (PyArray fl))
            ''flux_err'' (PyArray fe)))))))))))"

section \<open>Example inputs\<close>

text \<open>The two files of the end-to-end example under \<^verbatim>\<open>batch1\<close>, and an empty tree.\<close>

definition batch1_glob :: "string \<Rightarrow> string list" where
  "batch1_glob pattern =
     (if pattern = ''data/**/*.fits''
      then [''data/batch1/0100-S01-123456789-fast.fits'',
            ''data/batch1/0100-S01-987654321-fast.fits'']
      else [])"

definition no_match_glob :: "string \<Rightarrow> string list" where
  "no_match_glob pattern = []"

text \<open>A tree where the second file has a name of two tokens only.\<close>

definition short_name_glob :: "string \<Rightarrow> string list" where
  "short_name_glob pattern =
     (if pattern = ''data/**/*.fits''
      then [''data/batch1/0100-S01-123456789-fast.fits'', ''data/batch1/0100-S01.fits'']
      else [])"

text \<open>A catalog with \<^verbatim>\<open>tess_id\<close> 1, 2, 3 and a reference file with \<^verbatim>\<open>ticid\<close> 2, 3, 4.\<close>

definition catalog123 :: dataframe where
  "catalog123 = \<lparr>columns = [''tess_id'', ''cadence''],
     rows = [[PyInt 1, PyStr ''fast''], [PyInt 2, PyStr ''fast''], [PyInt 3, PyStr ''slow'']]\<rparr>"

definition gaia234 :: dataframe where
  "gaia234 = \<lparr>columns = [''ticid'', ''parallax''],
     rows = [[PyInt 2, PyInt 20], [PyInt 3, PyInt 30], [PyInt 4, PyInt 40]]\<rparr>"

definition gaia5 :: dataframe where
  "gaia5 = \<lparr>columns = [''ticid'', ''bp_rp''], rows = [[PyInt 5, PyInt 50]]\<rparr>"

text \<open>
  The promotion for tables such as these, of strings and of integers that a float64
  holds exactly: a column that some table lacks receives NaN, so its integers become
  floats; the cells of the other columns stay as they are.
\<close>

definition upcast_missing :: "dataframe list \<Rightarrow> string \<Rightarrow> pyval \<Rightarrow> pyval" where
  "upcast_missing objs c v =
     (if list_all (\<lambda>df. c \<in> set (columns df)) objs then v
      else (case v of PyInt n \<Rightarrow> PyFloat (Finite (of_int n)) | _ \<Rightarrow> v))"

definition gaia_csv :: "string \<Rightarrow> error + dataframe" where
  "gaia_csv path =
     (if path = ''gaia234.csv'' then Inr gaia234
      else if path = ''gaia5.csv'' then Inr gaia5
      else Inl OSError)"

text \<open>
  A light curve of five samples whose raw and corrected fluxes differ. After the first
  sample, sample 1 is good with a NaN uncertainty, sample 2 has a NaN flux, sample 3 has
  quality 8 and sample 4 is good.
\<close>

definition sample ::
  "rat \<Rightarrow> float64 \<Rightarrow> float64 \<Rightarrow> float64 \<Rightarrow> float64 \<Rightarrow> rat \<Rightarrow> string \<Rightarrow> float64" where
  "sample t sap sap_err pdcsap pdcsap_err q name =
     (if name = ''TIME'' then Finite t
      else if name = ''SAP_FLUX'' then sap
      else if name = ''SAP_FLUX_ERR'' then sap_err
      else if name = ''PDCSAP_FLUX'' then pdcsap
      else if name = ''PDCSAP_FLUX_ERR'' then pdcsap_err
      else if name = ''QUALITY'' then Finite q
      else NaN)"

definition lc_names :: "string list" where
  "lc_names = [''TIME'', ''SAP_FLUX'', ''SAP_FLUX_ERR'', ''PDCSAP_FLUX'', ''PDCSAP_FLUX_ERR'',
               ''QUALITY'']"

definition lc_table :: fits_rec where
  "lc_table = \<lparr>names = lc_names,
     recs = [sample 0 NaN NaN NaN NaN 0,
             sample 1 (Finite 21) (Finite 2) (Finite 11) NaN 0,
             sample 2 (Finite 22) (Finite 2) NaN (Finite 1) 0,
             sample 3 (Finite 23) (Finite 2) (Finite 13) (Finite 1) 8,
             sample 4 (Finite 24) (Finite 2) (Finite 14) (Finite 1) 0]\<rparr>"

definition lc_header :: "string \<rightharpoonup> pyval" where
  "lc_header kw =
     (if kw \<in> set (map snd header_keys) then Some (PyStr kw) else None)"

definition lc_hdulist :: "fits_rec \<Rightarrow> hdu list" where
  "lc_hdulist t = [\<lparr>header = lc_header, data = None\<rparr>, \<lparr>header = Map.empty, data = Some t\<rparr>]"

text \<open>A light-curve table with the same columns and no rows.\<close>

definition empty_table :: fits_rec where
  "empty_table = \<lparr>names = lc_names, recs = []\<rparr>"

definition lc_open :: "string \<Rightarrow> error + hdu list" where
  "lc_open path =
     (if path = ''lc.fits'' then Inr (lc_hdulist lc_table)
      else if path = ''empty.fits'' then Inr (lc_hdulist empty_table)
      else Inl OSError)"

section \<open>Properties of the Catalog Builder\<close>

text \<open>Splitting at a separator, and indexing the tokens.\<close>

lemma split_not_Nil: "split sep s \<noteq> []"
  by (induction s) (auto split: list.splits)

lemma split_no_sep: "sep \<notin> set a \<Longrightarrow> split sep a = [a]"
  by (induction a) auto

lemma split_first: "sep \<notin> set a \<Longrightarrow> split sep (a @ sep # b) = a # split sep b"
  by (induction a) auto

lemma split_last: "sep \<notin> set b \<Longrightarrow> split sep (a @ sep # b) = split sep a @ [b]"
  by (induction a) (auto simp: split_no_sep split_not_Nil split: list.splits)

lemma split_token_rest:
  "sep \<notin> set c \<Longrightarrow> rest = [] \<or> hd rest = sep \<Longrightarrow> \<exists>ws. split sep (c @ rest) = c # ws"
  by (cases rest) (auto simp: split_no_sep split_first)

lemma getitem_last: "getitem (xs @ [b]) (- 1) = Inr b"
  by (simp add: getitem_def nth_append)

lemma getitem_last_but_one: "xs \<noteq> [] \<Longrightarrow> getitem (xs @ [b]) (- 2) = Inr (last xs)"
  by (cases xs rule: rev_cases) (auto simp: getitem_def nth_append)

lemma getitem_path:
  assumes "CHR ''/'' \<notin> set name"
  shows "getitem (split CHR ''/'' (dir @ CHR ''/'' # name)) (- 2) = Inr (last (split CHR ''/'' dir))"
    and "getitem (split CHR ''/'' (dir @ CHR ''/'' # name)) (- 1) = Inr name"
  using assms by (simp_all add: split_last getitem_last getitem_last_but_one split_not_Nil)

lemma getitem_0: "getitem (a # xs) 0 = Inr a"
  by (simp add: getitem_def)

lemma getitem_1: "getitem (a # b # xs) 1 = Inr b"
  by (simp add: getitem_def)

lemma getitem_2: "getitem (a # b # c # xs) 2 = Inr c"
  by (simp add: getitem_def)

lemma getitem_3: "getitem (a # b # c # d # xs) 3 = Inr d"
  by (simp add: getitem_def)

lemma getitem_nat:
  "getitem xs (int k) = (if k < length xs then Inr (xs ! k) else Inl IndexError)"
  by (simp add: getitem_def)

lemma single_info_decode:
  assumes "CHR ''/'' \<notin> set name"
    and "split CHR ''-'' name = d # s # idt # c # ws"
    and "py_int idt = Some n"
  shows "single_info py_int (dir @ CHR ''/'' # name) =
     Inr [(''subdir'', PyStr (last (split CHR ''/'' dir))), (''filename'', PyStr name),
          (''daterange'', PyStr d), (''sector_no'', PyStr s), (''tess_id'', PyInt n),
          (''cadence'', PyStr c)]"
  unfolding single_info_def Let_def
  using assms
  by (simp add: getitem_path getitem_0 getitem_1 getitem_2 getitem_3
        and_then_def np_int_def setitem_def)

lemma single_info_keys:
  "single_info py_int f = Inr d \<Longrightarrow>
   map fst d = [''subdir'', ''filename'', ''daterange'', ''sector_no'', ''tess_id'', ''cadence'']"
  unfolding single_info_def Let_def and_then_def
  by (auto simp: setitem_def split: sum.splits)

lemma loop_Inr_iff:
  "loop py_int fs acc = Inr t \<longleftrightarrow> (\<exists>ds. t = acc @ ds \<and> map (single_info py_int) fs = map Inr ds)"
  by (induction fs arbitrary: acc)
     (auto split: sum.splits simp: Cons_eq_map_conv)

lemma loop_abort:
  "f \<in> set fs \<Longrightarrow> isl (single_info py_int f) \<Longrightarrow> isl (loop py_int fs acc)"
  by (induction fs arbitrary: acc) (auto split: sum.splits)

lemma union_keys_subset: "set ks \<subseteq> set acc \<Longrightarrow> union_keys acc ks = acc"
  by (induction ks arbitrary: acc) auto

lemma reindex_dict_own_keys:
  assumes "distinct (map fst d)"
  shows "reindex_dict (map fst d) d = map snd d"
proof -
  have "(case map_of d (fst p) of None \<Rightarrow> PyFloat NaN | Some v \<Rightarrow> v) = snd p"
    if "p \<in> set d" for p
  proof -
    from that have "(fst p, snd p) \<in> set d" by simp
    with assms have "map_of d (fst p) = Some (snd p)" by (rule map_of_is_SomeI)
    then show ?thesis by simp
  qed
  then show ?thesis by (simp add: reindex_dict_def)
qed


lemma pd_DataFrame_same_keys:
  assumes "\<forall>d \<in> set ds. map fst d = ks" and "distinct ks" and "ds \<noteq> []"
  shows "pd_DataFrame ds = \<lparr>columns = ks, rows = map (map snd) ds\<rparr>"
proof -
  obtain d ds' where ds: "ds = d # ds'" using assms(3) by (cases ds) auto
  have "set (concat (map (map fst) ds)) \<subseteq> set ks"
    using assms(1) by auto
  have k: "union_keys [] ks = ks" using assms(2)
  proof -
    have "union_keys acc xs = acc @ xs" if "distinct (acc @ xs)" for acc xs
      using that by (induction xs arbitrary: acc) auto
    from this [of "[]" ks] assms(2) show ?thesis by simp
  qed
  have app: "union_keys acc (xs @ ys) = union_keys (union_keys acc xs) ys" for acc xs ys
    by (induction xs arbitrary: acc) auto
  have "concat (map (map fst) ds) = ks @ concat (map (map fst) ds')"
    using assms(1) ds by simp
  then have "union_keys [] (concat (map (map fst) ds)) = union_keys ks (concat (map (map fst) ds'))"
    by (simp add: app k)
  also have "\<dots> = ks"
    using assms(1) ds by (intro union_keys_subset) auto
  finally have cols: "union_keys [] (concat (map (map fst) ds)) = ks" .
  have "map (reindex_dict ks) ds = map (map snd) ds"
    using assms(1,2) reindex_dict_own_keys by (intro map_cong) auto
  with cols show ?thesis by (simp add: pd_DataFrame_def)
qed

lemma read_tess_info_rows:
  assumes "read_tess_info py_int glob datadir = Inr df"
    and "i < length (glob (datadir @ ''**/*.fits''))"
  shows "\<exists>d. single_info py_int (glob (datadir @ ''**/*.fits'') ! i) = Inr d \<and>
           columns df = [''subdir'', ''filename'', ''daterange'', ''sector_no'', ''tess_id'', ''cadence''] \<and>
           length (rows df) = length (glob (datadir @ ''**/*.fits'')) \<and>
           rows df ! i = map snd d"
proof -
  let ?fs = "glob (datadir @ ''**/*.fits'')"
  let ?ks = "[''subdir'', ''filename'', ''daterange'', ''sector_no'', ''tess_id'', ''cadence'']"
  from assms(1) obtain ds where ds: "map (single_info py_int) ?fs = map Inr ds" and df: "df = pd_DataFrame ds"
    by (auto simp: read_tess_info_def loop_Inr_iff split: sum.splits)
  from ds have len: "length ds = length ?fs" by (metis length_map)
  have nth: "single_info py_int (?fs ! j) = Inr (ds ! j)" if "j < length ?fs" for j
    using ds that len by (metis nth_map)
  have keys: "\<forall>d \<in> set ds. map fst d = ?ks"
  proof
    fix d assume "d \<in> set ds"
    then obtain j where "j < length ds" "ds ! j = d" by (auto simp: in_set_conv_nth)
    with nth [of j] len show "map fst d = ?ks" by (simp add: single_info_keys)
  qed
  have "ds \<noteq> []" using assms(2) len by auto
  with keys have "df = \<lparr>columns = ?ks, rows = map (map snd) ds\<rparr>"
    unfolding df by (intro pd_DataFrame_same_keys) simp_all
  with nth [OF assms(2)] len assms(2) show ?thesis by simp
qed

lemma read_tess_info_total:
  assumes "\<forall>f \<in> set (glob (datadir @ ''**/*.fits'')). \<not> isl (single_info py_int f)"
  shows "\<not> isl (read_tess_info py_int glob datadir)"
proof -
  have "\<not> isl (loop py_int fs acc)" if "\<forall>f \<in> set fs. \<not> isl (single_info py_int f)" for fs acc
    using that by (induction fs arbitrary: acc) (auto split: sum.splits)
  from this [OF assms, of "[]"] show ?thesis
    by (cases "loop py_int (glob (datadir @ ''**/*.fits'')) []") (simp_all add: read_tess_info_def)
qed


lemma split_four_tokens:
  assumes "CHR ''-'' \<notin> set d" "CHR ''-'' \<notin> set s" "CHR ''-'' \<notin> set idt" "CHR ''-'' \<notin> set c"
    and "rest = [] \<or> hd rest = CHR ''-''"
  shows "\<exists>ws. split CHR ''-'' (d @ CHR ''-'' # s @ CHR ''-'' # idt @ CHR ''-'' # c @ rest)
           = d # s # idt # c # ws"
  using assms split_token_rest [of "CHR ''-''" c rest] by (auto simp: split_first)

text \<open>
  C6, as stated: every discovered file whose base name is \<^verbatim>\<open>d-s-id-c...\<close> gives the
  row. A path that \<^verbatim>\<open>glob\<close> returns without a directory part (the root directory being
  the empty string) has such a name, four tokens with a third that \<^verbatim>\<open>int\<close> parses, and
  its decoding raises IndexError at \<^verbatim>\<open>fsplit[-2]\<close>.
\<close>

theorem no_directory_counterexample:
  "split CHR ''-'' ''0100-S01-123456789-fast.fits'' =
     [''0100'', ''S01'', ''123456789'', ''fast.fits''] \<and>
   ascii_int ''123456789'' = Some 123456789 \<and>
   single_info ascii_int ''0100-S01-123456789-fast.fits'' = Inl IndexError"
  by code_simp

text \<open>
  C6, amended: a discovered file whose path has a directory part, \<^verbatim>\<open>dir/name\<close>, and
  whose base name is \<^verbatim>\<open>d-s-id-c...\<close>, with at least four hyphen-delimited tokens and a
  third token that \<^verbatim>\<open>int\<close> parses to \<open>n\<close>, is decoded to the row with daterange
  \<open>d\<close>, sector_no \<open>s\<close>, tess_id the integer \<open>n\<close> and cadence \<open>c\<close>, the three
  others strings; and every catalog the builder returns has that row, under the six
  column names, at the position of the file.
\<close>

theorem catalog_row_decoded:
  assumes "CHR ''/'' \<notin> set name"
    and "name = d @ ''-'' @ s @ ''-'' @ idt @ ''-'' @ c @ rest"
    and "CHR ''-'' \<notin> set d" and "CHR ''-'' \<notin> set s"
    and "CHR ''-'' \<notin> set idt" and "CHR ''-'' \<notin> set c"
    and "rest = [] \<or> hd rest = CHR ''-''"
    and "py_int idt = Some n"
  shows "single_info py_int (dir @ ''/'' @ name) =
           Inr [(''subdir'', PyStr (last (split CHR ''/'' dir))), (''filename'', PyStr name),
                (''daterange'', PyStr d), (''sector_no'', PyStr s), (''tess_id'', PyInt n),
                (''cadence'', PyStr c)] \<and>
         (\<forall>glob datadir df i.
            read_tess_info py_int glob datadir = Inr df \<and>
            i < length (glob (datadir @ ''**/*.fits'')) \<and>
            glob (datadir @ ''**/*.fits'') ! i = dir @ ''/'' @ name \<longrightarrow>
            columns df = [''subdir'', ''filename'', ''daterange'', ''sector_no'', ''tess_id'',
                          ''cadence''] \<and>
            rows df ! i = [PyStr (last (split CHR ''/'' dir)), PyStr name, PyStr d, PyStr s,
                           PyInt n, PyStr c])"
proof -
  from assms obtain ws where toks: "split CHR ''-'' name = d # s # idt # c # ws"
    using split_four_tokens [of d s idt c rest] by auto
  have row: "single_info py_int (dir @ CHR ''/'' # name) =
      Inr [(''subdir'', PyStr (last (split CHR ''/'' dir))), (''filename'', PyStr name),
           (''daterange'', PyStr d), (''sector_no'', PyStr s), (''tess_id'', PyInt n),
           (''cadence'', PyStr c)]"
    using single_info_decode [where py_int = py_int, OF assms(1) toks assms(8)] .
  have tab: "columns df = [''subdir'', ''filename'', ''daterange'', ''sector_no'', ''tess_id'',
                      ''cadence''] \<and>
        rows df ! i = [PyStr (last (split CHR ''/'' dir)), PyStr name, PyStr d, PyStr s,
                       PyInt n, PyStr c]"
    if "read_tess_info py_int glob datadir = Inr df"
      and "i < length (glob (datadir @ ''**/*.fits''))"
      and "glob (datadir @ ''**/*.fits'') ! i = dir @ CHR ''/'' # name"
    for glob datadir df i
    using read_tess_info_rows [OF that(1,2)] row that(3) by auto
  have "\<forall>glob datadir df i.
          read_tess_info py_int glob datadir = Inr df \<and>
          i < length (glob (datadir @ ''**/*.fits'')) \<and>
          glob (datadir @ ''**/*.fits'') ! i = dir @ CHR ''/'' # name \<longrightarrow>
          columns df = [''subdir'', ''filename'', ''daterange'', ''sector_no'', ''tess_id'',
                        ''cadence''] \<and>
          rows df ! i = [PyStr (last (split CHR ''/'' dir)), PyStr name, PyStr d, PyStr s,
                         PyInt n, PyStr c]"
    using tab by blast
  with row show ?thesis by simp
qed

theorem catalog_row_decoded_witness:
  "single_info ascii_int ''data/batch1/0100-S01-123456789-fast.fits'' =
     Inr [(''subdir'', PyStr ''batch1''), (''filename'', PyStr ''0100-S01-123456789-fast.fits''),
          (''daterange'', PyStr ''0100''), (''sector_no'', PyStr ''S01''),
          (''tess_id'', PyInt 123456789), (''cadence'', PyStr ''fast.fits'')] \<and>
   read_tess_info ascii_int batch1_glob ''data/'' =
     Inr \<lparr>columns = [''subdir'', ''filename'', ''daterange'', ''sector_no'', ''tess_id'',
                     ''cadence''],
          rows = [[PyStr ''batch1'', PyStr ''0100-S01-123456789-fast.fits'', PyStr ''0100'',
                   PyStr ''S01'', PyInt 123456789, PyStr ''fast.fits''],
                  [PyStr ''batch1'', PyStr ''0100-S01-987654321-fast.fits'', PyStr ''0100'',
                   PyStr ''S01'', PyInt 987654321, PyStr ''fast.fits'']]\<rparr>"
proof -
  have h1: "CHR ''/'' \<notin> set ''0100-S01-123456789-fast.fits''" by simp
  have h2: "''0100-S01-123456789-fast.fits'' =
      ''0100'' @ ''-'' @ ''S01'' @ ''-'' @ ''123456789'' @ ''-'' @ ''fast.fits'' @ []" by simp
  have h3: "CHR ''-'' \<notin> set ''0100''" by simp
  have h4: "CHR ''-'' \<notin> set ''S01''" by simp
  have h5: "CHR ''-'' \<notin> set ''123456789''" by simp
  have h6: "CHR ''-'' \<notin> set ''fast.fits''" by simp
  have h7: "([]::string) = [] \<or> hd [] = CHR ''-''" by simp
  have h8: "ascii_int ''123456789'' = Some 123456789" by code_simp
  note dec = catalog_row_decoded
      [where py_int = ascii_int and dir = "''data/batch1''", OF h1 h2 h3 h4 h5 h6 h7 h8]
  have sub: "last (split CHR ''/'' ''data/batch1'') = ''batch1''" by simp
  have one: "single_info ascii_int ''data/batch1/0100-S01-123456789-fast.fits'' =
     Inr [(''subdir'', PyStr ''batch1''), (''filename'', PyStr ''0100-S01-123456789-fast.fits''),
          (''daterange'', PyStr ''0100''), (''sector_no'', PyStr ''S01''),
          (''tess_id'', PyInt 123456789), (''cadence'', PyStr ''fast.fits'')]"
    using conjunct1 [OF dec] sub by simp
  have run: "read_tess_info ascii_int batch1_glob ''data/'' =
     Inr \<lparr>columns = [''subdir'', ''filename'', ''daterange'', ''sector_no'', ''tess_id'',
                     ''cadence''],
          rows = [[PyStr ''batch1'', PyStr ''0100-S01-123456789-fast.fits'', PyStr ''0100'',
                   PyStr ''S01'', PyInt 123456789, PyStr ''fast.fits''],
                  [PyStr ''batch1'', PyStr ''0100-S01-987654321-fast.fits'', PyStr ''0100'',
                   PyStr ''S01'', PyInt 987654321, PyStr ''fast.fits'']]\<rparr>"
    by code_simp
  from one run show ?thesis by (rule conjI)
qed

text \<open>The decoding of any path, by its path components and the tokens of its name.\<close>

lemma getitem_index:
  "getitem xs 0 = (if length xs < 1 then Inl IndexError else Inr (xs ! 0))"
  "getitem xs 1 = (if length xs < 2 then Inl IndexError else Inr (xs ! 1))"
  "getitem xs 2 = (if length xs < 3 then Inl IndexError else Inr (xs ! 2))"
  "getitem xs 3 = (if length xs < 4 then Inl IndexError else Inr (xs ! 3))"
  by (auto simp: getitem_def)

lemma getitem_from_end:
  "getitem xs (- 2) = (if length xs < 2 then Inl IndexError else Inr (xs ! (length xs - 2)))"
  "xs \<noteq> [] \<Longrightarrow> getitem xs (- 1) = Inr (last xs)"
proof -
  show "getitem xs (- 2) = (if length xs < 2 then Inl IndexError else Inr (xs ! (length xs - 2)))"
    by (auto simp: getitem_def nat_diff_distrib' intro!: arg_cong [where f = "nth xs"])
  show "getitem xs (- 1) = Inr (last xs)" if "xs \<noteq> []"
    using that by (cases xs rule: rev_cases) (auto simp: getitem_def nth_append)
qed

lemma single_info_cases:
  "single_info py_int f =
     (if length (split CHR ''/'' f) < 2 then Inl IndexError
      else if length (split CHR ''-'' (last (split CHR ''/'' f))) < 3 then Inl IndexError
      else case py_int (split CHR ''-'' (last (split CHR ''/'' f)) ! 2) of
             None \<Rightarrow> Inl ValueError
           | Some n \<Rightarrow>
               if length (split CHR ''-'' (last (split CHR ''/'' f))) < 4 then Inl IndexError
               else Inr [(''subdir'',
                            PyStr (split CHR ''/'' f ! (length (split CHR ''/'' f) - 2))),
                         (''filename'', PyStr (last (split CHR ''/'' f))),
                         (''daterange'', PyStr (split CHR ''-'' (last (split CHR ''/'' f)) ! 0)),
                         (''sector_no'', PyStr (split CHR ''-'' (last (split CHR ''/'' f)) ! 1)),
                         (''tess_id'', PyInt n),
                         (''cadence'', PyStr (split CHR ''-'' (last (split CHR ''/'' f)) ! 3))])"
  unfolding single_info_def Let_def
  by (simp add: getitem_from_end getitem_index split_not_Nil and_then_def np_int_def
        setitem_def split: option.splits)

text \<open>
  C8, as stated: every matched file whose name has fewer than four tokens fails with an
  index-out-of-range error, and every matched file whose third token is not a parseable
  integer fails with a conversion error. The name \<^verbatim>\<open>0100-S01-123.fits\<close> has three
  tokens and fails with ValueError: \<^verbatim>\<open>np.int\<close> rejects the third token \<^verbatim>\<open>123.fits\<close>
  before the fourth token is indexed. The path \<^verbatim>\<open>0100-S01-abc-fast.fits\<close>, without a
  directory part, has a third token \<^verbatim>\<open>abc\<close> that is no integer and fails with
  IndexError: \<^verbatim>\<open>fsplit[-2]\<close> raises before the name is split.
\<close>

theorem three_tokens_counterexample:
  "length (split CHR ''-'' ''0100-S01-123.fits'') < 4 \<and>
   single_info ascii_int ''data/batch1/0100-S01-123.fits'' = Inl ValueError \<and>
   single_info ascii_int ''data/batch1/0100-S01-123.fits'' \<noteq> Inl IndexError \<and>
   ascii_int (split CHR ''-'' ''0100-S01-abc-fast.fits'' ! 2) = None \<and>
   single_info ascii_int ''0100-S01-abc-fast.fits'' = Inl IndexError \<and>
   single_info ascii_int ''0100-S01-abc-fast.fits'' \<noteq> Inl ValueError"
  by code_simp

text \<open>
  C8, amended: for a matched path \<open>f\<close> with name \<open>last (f.split("/"))\<close>, decoding
  fails with IndexError when the path has no directory part, when the name has fewer
  than three hyphen-delimited tokens, and when it has exactly three and \<^verbatim>\<open>int\<close> parses
  the third; it fails with ValueError, the conversion error, when the path has a
  directory part, the name has at least three tokens and \<^verbatim>\<open>int\<close> rejects the third.
  Whenever the decoding of a matched file fails, the whole build fails and returns no
  catalog.
\<close>

theorem decode_failures:
  "(length (split CHR ''/'' f) < 2 \<or>
    length (split CHR ''-'' (last (split CHR ''/'' f))) < 3 \<or>
    (length (split CHR ''-'' (last (split CHR ''/'' f))) = 3 \<and>
     py_int (split CHR ''-'' (last (split CHR ''/'' f)) ! 2) \<noteq> None) \<longrightarrow>
      single_info py_int f = Inl IndexError) \<and>
   (2 \<le> length (split CHR ''/'' f) \<and>
    3 \<le> length (split CHR ''-'' (last (split CHR ''/'' f))) \<and>
    py_int (split CHR ''-'' (last (split CHR ''/'' f)) ! 2) = None \<longrightarrow>
      single_info py_int f = Inl ValueError) \<and>
   (\<forall>glob datadir.
      f \<in> set (glob (datadir @ ''**/*.fits'')) \<and> isl (single_info py_int f) \<longrightarrow>
      isl (read_tess_info py_int glob datadir))"
proof -
  note eq = single_info_cases [of py_int f]
  have a: "single_info py_int f = Inl IndexError"
    if "length (split CHR ''/'' f) < 2 \<or>
        length (split CHR ''-'' (last (split CHR ''/'' f))) < 3 \<or>
        (length (split CHR ''-'' (last (split CHR ''/'' f))) = 3 \<and>
         py_int (split CHR ''-'' (last (split CHR ''/'' f)) ! 2) \<noteq> None)"
    using that by (auto simp: eq)
  have b: "single_info py_int f = Inl ValueError"
    if "2 \<le> length (split CHR ''/'' f)"
      "3 \<le> length (split CHR ''-'' (last (split CHR ''/'' f)))"
      "py_int (split CHR ''-'' (last (split CHR ''/'' f)) ! 2) = None"
    using that by (simp add: eq)
  have d: "isl (read_tess_info py_int glob datadir)"
    if "f \<in> set (glob (datadir @ ''**/*.fits''))" "isl (single_info py_int f)"
    for glob datadir
    using loop_abort [OF that, of "[]"]
    by (cases "loop py_int (glob (datadir @ ''**/*.fits'')) []")
       (simp_all add: read_tess_info_def)
  from a b d show ?thesis by blast
qed

theorem decode_failures_witness:
  "single_info ascii_int ''0100-S01-abc-fast.fits'' = Inl IndexError \<and>
   single_info ascii_int ''data/batch1/0100-S01.fits'' = Inl IndexError \<and>
   single_info ascii_int ''data/batch1/0100-S01-123'' = Inl IndexError \<and>
   single_info ascii_int ''data/batch1/0100-S01-123.fits'' = Inl ValueError \<and>
   isl (read_tess_info ascii_int short_name_glob ''data/'')"
proof -
  have s1: "split CHR ''/'' ''0100-S01-abc-fast.fits'' = [''0100-S01-abc-fast.fits'']"
    by simp
  have s2: "split CHR ''/'' ''data/batch1/0100-S01.fits'' =
      [''data'', ''batch1'', ''0100-S01.fits'']" by simp
  have s3: "split CHR ''/'' ''data/batch1/0100-S01-123'' =
      [''data'', ''batch1'', ''0100-S01-123'']" by simp
  have s4: "split CHR ''/'' ''data/batch1/0100-S01-123.fits'' =
      [''data'', ''batch1'', ''0100-S01-123.fits'']" by simp
  have t2: "split CHR ''-'' ''0100-S01.fits'' = [''0100'', ''S01.fits'']" by simp
  have t3: "split CHR ''-'' ''0100-S01-123'' = [''0100'', ''S01'', ''123'']" by simp
  have t4: "split CHR ''-'' ''0100-S01-123.fits'' = [''0100'', ''S01'', ''123.fits'']" by simp
  have p3: "ascii_int ''123'' = Some 123" by code_simp
  have p4: "ascii_int ''123.fits'' = None" by code_simp
  have mem: "''data/batch1/0100-S01.fits'' \<in> set (short_name_glob (''data/'' @ ''**/*.fits''))"
    by (simp add: short_name_glob_def)
  note w1 = decode_failures [where f = "''0100-S01-abc-fast.fits''" and py_int = ascii_int]
  note w2 = decode_failures [where f = "''data/batch1/0100-S01.fits''" and py_int = ascii_int]
  note w3 = decode_failures [where f = "''data/batch1/0100-S01-123''" and py_int = ascii_int]
  note w4 = decode_failures [where f = "''data/batch1/0100-S01-123.fits''" and py_int = ascii_int]
  have a: "single_info ascii_int ''0100-S01-abc-fast.fits'' = Inl IndexError"
    using w1 unfolding s1 by simp
  have b: "single_info ascii_int ''data/batch1/0100-S01.fits'' = Inl IndexError"
    using w2 unfolding s2 by (simp add: t2)
  have c: "single_info ascii_int ''data/batch1/0100-S01-123'' = Inl IndexError"
    using w3 unfolding s3 by (simp add: t3 p3)
  have d: "single_info ascii_int ''data/batch1/0100-S01-123.fits'' = Inl ValueError"
    using w4 unfolding s4 by (simp add: t4 p4)
  have e: "isl (read_tess_info ascii_int short_name_glob ''data/'')"
    using w2 b mem by simp
  from a b c d e show ?thesis by (intro conjI)
qed

text \<open>
  C10: when no file under the root directory matches the pattern, the Catalog Builder
  returns the empty table (no rows, no columns) and raises nothing.
\<close>

theorem no_match_empty_catalog:
  "glob (datadir @ ''**/*.fits'') = [] \<Longrightarrow>
   read_tess_info py_int glob datadir = Inr \<lparr>columns = [], rows = []\<rparr>"
  by (simp add: read_tess_info_def pd_DataFrame_def)

theorem no_match_empty_catalog_witness:
  "no_match_glob (''data/'' @ ''**/*.fits'') = [] \<and>
   read_tess_info ascii_int no_match_glob ''data/'' = Inr \<lparr>columns = [], rows = []\<rparr>"
  using no_match_empty_catalog
    [where glob = no_match_glob and datadir = "''data/''" and py_int = ascii_int]
  by (simp add: no_match_glob_def)

section \<open>Properties of the Cross-Match Merger\<close>

text \<open>
  Whatever the inputs, \<^verbatim>\<open>crossmatch_gaia\<close> ends in an exception: reading a file fails,
  or there is nothing to concatenate, or \<^verbatim>\<open>pd.merge\<close> refuses the list it is given.
\<close>

lemma crossmatch_gaia_raises: "isl (crossmatch_gaia promote read_csv tess_info gaia_files)"
  by (simp add: crossmatch_gaia_def and_then_def pd_merge_def split: sum.splits)

text \<open>
  C2: the merger concatenates the reference tables and inner-joins the catalog against
  the combined table on \<^verbatim>\<open>tess_id == ticid\<close>. The code joins against the list of
  tables instead: for the catalog 1, 2, 3 and one reference file 2, 3, 4 the call raises
  TypeError, where the join against the concatenated table has the two rows 2 and 3.
\<close>

theorem crossmatch_merges_list:
  "crossmatch_gaia upcast_missing gaia_csv catalog123 [''gaia234.csv''] = Inl TypeError \<and>
   pd_concat upcast_missing [gaia234] = Inr \<lparr>columns = [''parallax'', ''ticid''],
     rows = [[PyInt 20, PyInt 2], [PyInt 30, PyInt 3], [PyInt 40, PyInt 4]]\<rparr> \<and>
   pd_merge (DataFrame catalog123)
     (DataFrame \<lparr>columns = [''parallax'', ''ticid''],
        rows = [[PyInt 20, PyInt 2], [PyInt 30, PyInt 3], [PyInt 40, PyInt 4]]\<rparr>)
     ''tess_id'' ''ticid'' =
   Inr \<lparr>columns = [''tess_id'', ''cadence'', ''parallax'', ''ticid''],
     rows = [[PyInt 2, PyStr ''fast'', PyInt 20, PyInt 2],
             [PyInt 3, PyStr ''slow'', PyInt 30, PyInt 3]]\<rparr>"
  by code_simp

text \<open>
  C5, as stated: an empty catalog or an empty list of reference files gives an empty
  result without an error. With both empty the call raises ValueError.
\<close>

theorem crossmatch_empty_counterexample:
  "crossmatch_gaia upcast_missing gaia_csv \<lparr>columns = [], rows = []\<rparr> [] = Inl ValueError"
  by (simp add: crossmatch_gaia_def and_then_def pd_concat_def)

text \<open>
  C5, amended: for every catalog, an empty list of reference files makes the merger raise
  ValueError, since there is nothing to concatenate.
\<close>

theorem crossmatch_empty_refs_raises:
  "crossmatch_gaia promote read_csv tess_info [] = Inl ValueError"
  by (simp add: crossmatch_gaia_def and_then_def pd_concat_def)

text \<open>The concatenation step: the columns of the union, the rows at their offsets.\<close>

lemma set_union_keys: "set (union_keys acc ks) = set acc \<union> set ks"
  by (induction ks arbitrary: acc) auto

lemma distinct_union_keys: "distinct acc \<Longrightarrow> distinct (union_keys acc ks)"
  by (induction ks arbitrary: acc) auto

lemma length_reindex: "length (reindex cast cols df) = length (rows df)"
  by (simp add: reindex_def)

lemma nth_concat_offset:
  "k < length xss \<Longrightarrow> j < length (xss ! k) \<Longrightarrow>
   concat xss ! (sum_list (map length (take k xss)) + j) = xss ! k ! j"
proof (induction xss arbitrary: k)
  case Nil
  then show ?case by simp
next
  case (Cons xs xss)
  show ?case
  proof (cases k)
    case 0
    with Cons.prems show ?thesis by (simp add: nth_append)
  next
    case (Suc k')
    with Cons.prems Cons.IH [of k'] show ?thesis by (simp add: nth_append add.assoc)
  qed
qed

lemma cell_of_realigned:
  "distinct cols \<Longrightarrow> c \<in> set cols \<Longrightarrow> cell_of cols (map g cols) c = g c"
  by (simp add: cell_of_def map_of_zip_map)

text \<open>
  C7, as stated: for every list of reference tables the concatenation step produces a
  combined table. For the empty list it produces none: \<^verbatim>\<open>pd.concat\<close> raises ValueError.
\<close>

theorem concat_empty_counterexample: "pd_concat upcast_missing [] = Inl ValueError"
  by (simp add: pd_concat_def)

text \<open>
  C7, amended: for every non-empty list of reference tables, with whatever column sets
  and whatever promotion of the cells, the concatenation step produces a combined table
  whose row count is the sum of the tables' row counts and whose column set is the union
  of their column sets; row \<open>j\<close> of table \<open>k\<close> stands after the rows of the tables
  before it and is null (NaN) under every column that its table does not have.
\<close>

theorem concat_rows_columns:
  assumes "objs \<noteq> []"
  shows "\<exists>t. pd_concat promote objs = Inr t \<and>
           length (rows t) = sum_list (map (\<lambda>df. length (rows df)) objs) \<and>
           set (columns t) = (\<Union>df \<in> set objs. set (columns df)) \<and>
           distinct (columns t) \<and>
           (\<forall>k j c. k < length objs \<and> j < length (rows (objs ! k)) \<and>
                    c \<in> set (columns t) \<and> c \<notin> set (columns (objs ! k)) \<longrightarrow>
              cell_of (columns t)
                (rows t ! (sum_list (map (\<lambda>df. length (rows df)) (take k objs)) + j)) c =
              PyFloat NaN)"
proof -
  define cols where "cols = sort (union_keys [] (concat (map columns objs)))"
  define t where
    "t = \<lparr>columns = cols, rows = concat (map (reindex (promote objs) cols) objs)\<rparr>"
  have ret: "pd_concat promote objs = Inr t"
    using assms by (simp add: pd_concat_def t_def cols_def Let_def)
  have len: "length (rows t) = sum_list (map (\<lambda>df. length (rows df)) objs)"
    by (simp add: t_def length_concat o_def length_reindex)
  have cset: "set (columns t) = (\<Union>df \<in> set objs. set (columns df))"
    by (simp add: t_def cols_def set_union_keys)
  have dist: "distinct (columns t)"
    by (simp add: t_def cols_def distinct_union_keys)
  have cell: "cell_of (columns t)
                (rows t ! (sum_list (map (\<lambda>df. length (rows df)) (take k objs)) + j)) c =
              PyFloat NaN"
    if k: "k < length objs" and j: "j < length (rows (objs ! k))"
      and c: "c \<in> set (columns t)" and absent: "c \<notin> set (columns (objs ! k))"
    for k j c
  proof -
    let ?g = "\<lambda>c. if c \<in> set (columns (objs ! k))
                   then promote objs c (cell_of (columns (objs ! k)) (rows (objs ! k) ! j) c)
                   else PyFloat NaN"
    have off: "sum_list (map (\<lambda>df. length (rows df)) (take k objs)) =
               sum_list (map length (take k (map (reindex (promote objs) cols) objs)))"
      by (simp add: take_map o_def length_reindex)
    have "rows t ! (sum_list (map (\<lambda>df. length (rows df)) (take k objs)) + j) =
          map (reindex (promote objs) cols) objs ! k ! j"
      unfolding off t_def using k j
      by (simp add: nth_concat_offset length_reindex)
    also have "\<dots> = map ?g cols"
      using k j by (simp add: reindex_def)
    finally have row: "rows t ! (sum_list (map (\<lambda>df. length (rows df)) (take k objs)) + j) =
          map ?g cols" .
    have "cell_of cols (map ?g cols) c = ?g c"
      using dist c by (intro cell_of_realigned) (simp_all add: t_def)
    with absent show ?thesis
      unfolding row by (simp add: t_def)
  qed
  from ret len cset dist cell show ?thesis by blast
qed

theorem concat_rows_columns_witness:
  "pd_concat upcast_missing [gaia234, gaia5] =
     Inr \<lparr>columns = [''bp_rp'', ''parallax'', ''ticid''],
          rows = [[PyFloat NaN, PyFloat (Finite 20), PyInt 2],
                  [PyFloat NaN, PyFloat (Finite 30), PyInt 3],
                  [PyFloat NaN, PyFloat (Finite 40), PyInt 4],
                  [PyFloat (Finite 50), PyFloat NaN, PyInt 5]]\<rparr> \<and>
   length [[PyFloat NaN, PyFloat (Finite 20), PyInt 2],
           [PyFloat NaN, PyFloat (Finite 30), PyInt 3],
           [PyFloat NaN, PyFloat (Finite 40), PyInt 4],
           [PyFloat (Finite 50), PyFloat NaN, PyInt 5]] =
     length (rows gaia234) + length (rows gaia5) \<and>
   set [''bp_rp'', ''parallax'', ''ticid''] = set (columns gaia234) \<union> set (columns gaia5) \<and>
   ''parallax'' \<notin> set (columns gaia5) \<and>
   cell_of [''bp_rp'', ''parallax'', ''ticid''] [PyFloat (Finite 50), PyFloat NaN, PyInt 5]
     ''parallax'' = PyFloat NaN"
proof -
  have ne: "[gaia234, gaia5] \<noteq> []" by simp
  have ev: "pd_concat upcast_missing [gaia234, gaia5] =
     Inr \<lparr>columns = [''bp_rp'', ''parallax'', ''ticid''],
          rows = [[PyFloat NaN, PyFloat (Finite 20), PyInt 2],
                  [PyFloat NaN, PyFloat (Finite 30), PyInt 3],
                  [PyFloat NaN, PyFloat (Finite 40), PyInt 4],
                  [PyFloat (Finite 50), PyFloat NaN, PyInt 5]]\<rparr>"
    by code_simp
  from concat_rows_columns [OF ne, where promote = upcast_missing] obtain t where
    t: "pd_concat upcast_missing [gaia234, gaia5] = Inr t"
    and len: "length (rows t) = sum_list (map (\<lambda>df. length (rows df)) [gaia234, gaia5])"
    and cset: "set (columns t) = (\<Union>df \<in> set [gaia234, gaia5]. set (columns df))"
    and cell: "\<forall>k j c. k < length [gaia234, gaia5] \<and> j < length (rows ([gaia234, gaia5] ! k)) \<and>
                 c \<in> set (columns t) \<and> c \<notin> set (columns ([gaia234, gaia5] ! k)) \<longrightarrow>
              cell_of (columns t)
                (rows t ! (sum_list (map (\<lambda>df. length (rows df)) (take k [gaia234, gaia5])) + j)) c =
              PyFloat NaN"
    by blast
  from t ev have teq: "t = \<lparr>columns = [''bp_rp'', ''parallax'', ''ticid''],
          rows = [[PyFloat NaN, PyFloat (Finite 20), PyInt 2],
                  [PyFloat NaN, PyFloat (Finite 30), PyInt 3],
                  [PyFloat NaN, PyFloat (Finite 40), PyInt 4],
                  [PyFloat (Finite 50), PyFloat NaN, PyInt 5]]\<rparr>"
    by simp
  have a: "length [[PyFloat NaN, PyFloat (Finite 20), PyInt 2],
           [PyFloat NaN, PyFloat (Finite 30), PyInt 3],
           [PyFloat NaN, PyFloat (Finite 40), PyInt 4],
           [PyFloat (Finite 50), PyFloat NaN, PyInt 5]] =
     length (rows gaia234) + length (rows gaia5)"
    using len unfolding teq by simp
  have b: "set [''bp_rp'', ''parallax'', ''ticid''] = set (columns gaia234) \<union> set (columns gaia5)"
    using cset unfolding teq by simp
  have ab: "''parallax'' \<notin> set (columns gaia5)" by (simp add: gaia5_def)
  have c: "cell_of [''bp_rp'', ''parallax'', ''ticid'']
             [PyFloat (Finite 50), PyFloat NaN, PyInt 5] ''parallax'' = PyFloat NaN"
    using cell [rule_format, of 1 0 "''parallax''"] ab unfolding teq
    by (simp add: gaia234_def gaia5_def)
  from ev a b ab c show ?thesis by (intro conjI)
qed

section \<open>Properties of the Observation Reader\<close>

text \<open>
  Boolean indexing by the mask keeps the cells at the indices where the quality equals the
  flag and the flux is finite; after the first sample is dropped these are indices from 1.
\<close>

lemma bool_index_mask:
  assumes "length q = length xs" and "length f = length xs"
  shows "bool_index xs (mask_of q qf f) =
     Inr (map (nth xs) (filter (\<lambda>i. np_eq (q ! i) qf \<and> isfinite (f ! i)) [0..<length xs]))"
proof -
  have "map fst (filter snd (zip xs (map (\<lambda>(a, b). np_eq a qf \<and> isfinite b) (zip q f)))) =
        map (nth xs) (filter (\<lambda>i. np_eq (q ! i) qf \<and> isfinite (f ! i)) [0..<length xs])"
    using assms
  proof (induction xs arbitrary: q f)
    case Nil
    then show ?case by simp
  next
    case (Cons x xs)
    then obtain q0 q' f0 f' where q: "q = q0 # q'" and f: "f = f0 # f'"
      by (cases q; cases f) auto
    with Cons.prems have len: "length q' = length xs" "length f' = length xs" by simp_all
    have up: "[0..<length (x # xs)] = 0 # map Suc [0..<length xs]"
      by (simp add: upt_conv_Cons map_Suc_upt del: upt_Suc)
    show ?case
      unfolding up q f using Cons.IH [OF len]
      by (simp add: filter_map o_def)
  qed
  with assms show ?thesis by (simp add: bool_index_def mask_of_def)
qed

lemma bool_index_drop1:
  assumes "length q = length xs" and "length f = length xs"
  shows "bool_index (drop 1 xs) (mask_of (drop 1 q) qf (drop 1 f)) =
     Inr (map (nth xs) (filter (\<lambda>i. np_eq (q ! i) qf \<and> isfinite (f ! i)) [1..<length q]))"
proof (cases xs)
  case Nil
  with assms show ?thesis by (simp add: bool_index_def mask_of_def)
next
  case (Cons x xs')
  with assms obtain q0 q' f0 f' where q: "q = q0 # q'" and f: "f = f0 # f'"
    by (cases q; cases f) auto
  with Cons assms have len: "length q' = length xs'" "length f' = length xs'" by simp_all
  have up: "[1..<length q] = map Suc [0..<length xs']"
    using len q by (simp add: map_Suc_upt del: upt_Suc)
  show ?thesis
    unfolding up using bool_index_mask [OF len, of qf]
    by (simp add: Cons q f filter_map o_def)
qed

lemma hdu_field_length:
  "hdu_field hdulist a = Inr xs \<Longrightarrow> hdu_field hdulist b = Inr ys \<Longrightarrow> length xs = length ys"
  by (auto simp: hdu_field_def and_then_def field_def split: sum.splits option.splits if_splits)

lemma dict_get_setitem:
  "dict_get (setitem d k v) k' = (if k' = k then Inr v else dict_get d k')"
  by (simp add: dict_get_def setitem_def AList.update_conv')

lemma reader_result:
  assumes run: "read_tess_lightcurve fname fits_open filename pdc qf = Inr d"
    and opened: "fname = Some p" "fits_open p = Inr hdulist"
    and t: "hdu_field hdulist ''TIME'' = Inr raw_time"
    and f: "hdu_field hdulist ''PDCSAP_FLUX'' = Inr raw_flux"
    and e: "hdu_field hdulist ''PDCSAP_FLUX_ERR'' = Inr raw_err"
    and q: "hdu_field hdulist ''QUALITY'' = Inr raw_quality"
  shows "dict_get d ''time'' = Inr (PyArray (map (nth raw_time)
           (filter (\<lambda>i. np_eq (raw_quality ! i) qf \<and> isfinite (raw_flux ! i))
              [1..<length raw_quality])))"
    and "dict_get d ''flux'' = Inr (PyArray (map (nth raw_flux)
           (filter (\<lambda>i. np_eq (raw_quality ! i) qf \<and> isfinite (raw_flux ! i))
              [1..<length raw_quality])))"
    and "dict_get d ''flux_err'' = Inr (PyArray (map (nth raw_err)
           (filter (\<lambda>i. np_eq (raw_quality ! i) qf \<and> isfinite (raw_flux ! i))
              [1..<length raw_quality])))"
proof -
  let ?keep = "filter (\<lambda>i. np_eq (raw_quality ! i) qf \<and> isfinite (raw_flux ! i))
                 [1..<length raw_quality]"
  have lt: "length raw_quality = length raw_time" and lf: "length raw_flux = length raw_time"
    and le: "length raw_quality = length raw_err" and lf2: "length raw_flux = length raw_err"
    and lq: "length raw_quality = length raw_flux"
    using hdu_field_length t f e q by blast+
  have bt: "bool_index (drop 1 raw_time) (mask_of (drop 1 raw_quality) qf (drop 1 raw_flux))
      = Inr (map (nth raw_time) ?keep)"
    using bool_index_drop1 [OF lt lf] .
  have bf: "bool_index (drop 1 raw_flux) (mask_of (drop 1 raw_quality) qf (drop 1 raw_flux))
      = Inr (map (nth raw_flux) ?keep)"
    using bool_index_drop1 [OF lq refl] .
  have be: "bool_index (drop 1 raw_err) (mask_of (drop 1 raw_quality) qf (drop 1 raw_flux))
      = Inr (map (nth raw_err) ?keep)"
    using bool_index_drop1 [OF le lf2] .
  from run opened obtain d0 where
    "d = setitem (setitem (setitem d0 ''time'' (PyArray (map (nth raw_time) ?keep)))
           ''flux'' (PyArray (map (nth raw_flux) ?keep)))
           ''flux_err'' (PyArray (map (nth raw_err) ?keep))"
    by (auto simp: read_tess_lightcurve_def and_then_def Let_def t f e q bt bf be
          simp del: One_nat_def split: sum.splits)
  then show "dict_get d ''time'' = Inr (PyArray (map (nth raw_time) ?keep))"
    and "dict_get d ''flux'' = Inr (PyArray (map (nth raw_flux) ?keep))"
    and "dict_get d ''flux_err'' = Inr (PyArray (map (nth raw_err) ?keep))"
    by (simp_all add: dict_get_setitem)
qed


text \<open>
  The call returns whenever the name \<^verbatim>\<open>fname\<close> is bound to a file that opens, has the
  header cards and has the four fields.
\<close>

lemma read_tess_lightcurve_returns:
  assumes "fname = Some p" and "fits_open p = Inr hdulist"
    and "read_header hdulist header_keys [] = Inr d0"
    and t: "hdu_field hdulist ''TIME'' = Inr raw_time"
    and f: "hdu_field hdulist ''PDCSAP_FLUX'' = Inr raw_flux"
    and e: "hdu_field hdulist ''PDCSAP_FLUX_ERR'' = Inr raw_err"
    and q: "hdu_field hdulist ''QUALITY'' = Inr raw_quality"
  shows "\<not> isl (read_tess_lightcurve fname fits_open filename pdc qf)"
proof -
  have lt: "length raw_quality = length raw_time" and lf: "length raw_flux = length raw_time"
    and le: "length raw_quality = length raw_err" and lf2: "length raw_flux = length raw_err"
    and lq: "length raw_quality = length raw_flux"
    using hdu_field_length t f e q by blast+
  show ?thesis
    using assms(1-3)
    by (simp add: read_tess_lightcurve_def and_then_def Let_def t f e q
          bool_index_drop1 [OF lt lf] bool_index_drop1 [OF lq refl] bool_index_drop1 [OF le lf2]
          del: One_nat_def)
qed

text \<open>
  C3, as stated: the returned length is at most the raw length minus one. For a table
  with no rows the raw series are empty, the returned series are empty, and 0 is not at
  most 0 - 1.
\<close>

theorem empty_series_counterexample:
  "hdu_field (lc_hdulist empty_table) ''TIME'' = Inr [] \<and>
   and_then (read_tess_lightcurve (Some ''empty.fits'') lc_open ''empty.fits'' True 0)
     (\<lambda>d. dict_get d ''time'') = Inr (PyArray []) \<and>
   \<not> int (length ([] :: float64 list)) \<le> int (length ([] :: float64 list)) - 1"
  by code_simp

text \<open>
  C3, amended: on every run that returns, with the raw \<^verbatim>\<open>TIME\<close>, flux, flux-error and
  \<^verbatim>\<open>QUALITY\<close> series as read from the file, the reader drops sample 0 and keeps index
  \<open>i\<close> exactly when \<open>quality[i]\<close> equals the flag and \<open>flux[i]\<close> is finite. The same
  indices, in increasing order, select the returned time, flux and flux-error, so the
  three have one length and stay aligned; every returned flux is finite; and the
  returned length is at most the raw length minus one, or zero when the raw series are
  empty.
\<close>

theorem filter_mask:
  assumes run: "read_tess_lightcurve fname fits_open filename pdc qf = Inr d"
    and opened: "fname = Some p" "fits_open p = Inr hdulist"
    and t: "hdu_field hdulist ''TIME'' = Inr raw_time"
    and f: "hdu_field hdulist ''PDCSAP_FLUX'' = Inr raw_flux"
    and e: "hdu_field hdulist ''PDCSAP_FLUX_ERR'' = Inr raw_err"
    and q: "hdu_field hdulist ''QUALITY'' = Inr raw_quality"
  shows "let keep = filter (\<lambda>i. np_eq (raw_quality ! i) qf \<and> isfinite (raw_flux ! i))
                      [1..<length raw_quality]
         in length raw_time = length raw_quality \<and>
            length raw_flux = length raw_quality \<and>
            length raw_err = length raw_quality \<and>
            dict_get d ''time'' = Inr (PyArray (map (nth raw_time) keep)) \<and>
            dict_get d ''flux'' = Inr (PyArray (map (nth raw_flux) keep)) \<and>
            dict_get d ''flux_err'' = Inr (PyArray (map (nth raw_err) keep)) \<and>
            sorted_wrt (<) keep \<and>
            list_all isfinite (map (nth raw_flux) keep) \<and>
            int (length keep) \<le> max 0 (int (length raw_quality) - 1)"
proof -
  let ?keep = "filter (\<lambda>i. np_eq (raw_quality ! i) qf \<and> isfinite (raw_flux ! i))
                 [1..<length raw_quality]"
  have lens: "length raw_time = length raw_quality" "length raw_flux = length raw_quality"
    "length raw_err = length raw_quality"
    using hdu_field_length t f e q by blast+
  note res = reader_result [OF run opened t f e q]
  have ord: "sorted_wrt (<) ?keep"
    by (rule sorted_wrt_filter) simp
  have fin: "list_all isfinite (map (nth raw_flux) ?keep)"
    by (simp add: list_all_iff)
  have "length ?keep \<le> length [1..<length raw_quality]"
    by (rule length_filter_le)
  then have bound: "int (length ?keep) \<le> max 0 (int (length raw_quality) - 1)"
    by simp
  from lens res ord fin bound show ?thesis
    unfolding Let_def by (intro conjI)
qed

theorem filter_mask_witness:
  "and_then (read_tess_lightcurve (Some ''lc.fits'') lc_open ''lc.fits'' True 0)
     (\<lambda>d. dict_get d ''time'') = Inr (PyArray [Finite 1, Finite 4]) \<and>
   and_then (read_tess_lightcurve (Some ''lc.fits'') lc_open ''lc.fits'' True 0)
     (\<lambda>d. dict_get d ''flux'') = Inr (PyArray [Finite 11, Finite 14]) \<and>
   and_then (read_tess_lightcurve (Some ''lc.fits'') lc_open ''lc.fits'' True 0)
     (\<lambda>d. dict_get d ''flux_err'') = Inr (PyArray [NaN, Finite 1])"
proof -
  have "\<not> isl (read_tess_lightcurve (Some ''lc.fits'') lc_open ''lc.fits'' True 0)"
    by code_simp
  then obtain d where
    run: "read_tess_lightcurve (Some ''lc.fits'') lc_open ''lc.fits'' True 0 = Inr d"
    by (cases "read_tess_lightcurve (Some ''lc.fits'') lc_open ''lc.fits'' True 0") auto
  have opened: "lc_open ''lc.fits'' = Inr (lc_hdulist lc_table)"
    by (simp add: lc_open_def)
  have t: "hdu_field (lc_hdulist lc_table) ''TIME'' =
      Inr [Finite 0, Finite 1, Finite 2, Finite 3, Finite 4]" by code_simp
  have f: "hdu_field (lc_hdulist lc_table) ''PDCSAP_FLUX'' =
      Inr [NaN, Finite 11, NaN, Finite 13, Finite 14]" by code_simp
  have e: "hdu_field (lc_hdulist lc_table) ''PDCSAP_FLUX_ERR'' =
      Inr [NaN, NaN, Finite 1, Finite 1, Finite 1]" by code_simp
  have q: "hdu_field (lc_hdulist lc_table) ''QUALITY'' =
      Inr [Finite 0, Finite 0, Finite 0, Finite 8, Finite 0]" by code_simp
  have keep: "filter (\<lambda>i. np_eq ([Finite 0, Finite 0, Finite 0, Finite 8, Finite 0] ! i) 0 \<and>
                 isfinite ([NaN, Finite 11, NaN, Finite 13, Finite 14] ! i))
               [1..<length [Finite 0, Finite 0, Finite 0, Finite 8, Finite 0]] = [1, 4]"
    by code_simp
  from filter_mask [OF run refl opened t f e q]
  have "dict_get d ''time'' = Inr (PyArray [Finite 1, Finite 4]) \<and>
        dict_get d ''flux'' = Inr (PyArray [Finite 11, Finite 14]) \<and>
        dict_get d ''flux_err'' = Inr (PyArray [NaN, Finite 1])"
    unfolding keep Let_def by simp
  then show ?thesis by (simp add: run and_then_def)
qed

text \<open>
  C9: the filter tests the finiteness of the flux only. On every run that returns, a
  sample after the first whose quality equals the flag and whose flux is finite is kept,
  and its flux-error is in the returned sequence whether it is finite or not. The
  example file has a sample 1 with a NaN flux-error, and the returned flux-error holds
  that NaN.
\<close>

theorem flux_err_not_tested:
  assumes run: "read_tess_lightcurve fname fits_open filename pdc qf = Inr d"
    and opened: "fname = Some p" "fits_open p = Inr hdulist"
    and t: "hdu_field hdulist ''TIME'' = Inr raw_time"
    and f: "hdu_field hdulist ''PDCSAP_FLUX'' = Inr raw_flux"
    and e: "hdu_field hdulist ''PDCSAP_FLUX_ERR'' = Inr raw_err"
    and q: "hdu_field hdulist ''QUALITY'' = Inr raw_quality"
    and i: "0 < i" "i < length raw_quality"
    and good: "np_eq (raw_quality ! i) qf" "isfinite (raw_flux ! i)"
  shows "let keep = filter (\<lambda>i. np_eq (raw_quality ! i) qf \<and> isfinite (raw_flux ! i))
                      [1..<length raw_quality]
         in dict_get d ''flux_err'' = Inr (PyArray (map (nth raw_err) keep)) \<and>
            i \<in> set keep \<and>
            raw_err ! i \<in> set (map (nth raw_err) keep)"
proof -
  let ?keep = "filter (\<lambda>i. np_eq (raw_quality ! i) qf \<and> isfinite (raw_flux ! i))
                 [1..<length raw_quality]"
  have mem: "i \<in> set ?keep" using i good by simp
  then have "raw_err ! i \<in> set (map (nth raw_err) ?keep)" by simp
  with reader_result(3) [OF run opened t f e q] mem show ?thesis
    unfolding Let_def by (intro conjI)
qed

theorem flux_err_not_tested_witness:
  "hdu_field (lc_hdulist lc_table) ''PDCSAP_FLUX_ERR'' =
     Inr [NaN, NaN, Finite 1, Finite 1, Finite 1] \<and>
   \<not> isfinite ([NaN, NaN, Finite 1, Finite 1, Finite 1] ! 1) \<and>
   and_then (read_tess_lightcurve (Some ''lc.fits'') lc_open ''lc.fits'' True 0)
     (\<lambda>d. dict_get d ''flux_err'') = Inr (PyArray [NaN, Finite 1]) \<and>
   [NaN, NaN, Finite 1, Finite 1, Finite 1] ! 1 \<in> set [NaN, Finite 1]"
proof -
  have "\<not> isl (read_tess_lightcurve (Some ''lc.fits'') lc_open ''lc.fits'' True 0)"
    by code_simp
  then obtain d where
    run: "read_tess_lightcurve (Some ''lc.fits'') lc_open ''lc.fits'' True 0 = Inr d"
    by (cases "read_tess_lightcurve (Some ''lc.fits'') lc_open ''lc.fits'' True 0") auto
  have opened: "lc_open ''lc.fits'' = Inr (lc_hdulist lc_table)"
    by (simp add: lc_open_def)
  have t: "hdu_field (lc_hdulist lc_table) ''TIME'' =
      Inr [Finite 0, Finite 1, Finite 2, Finite 3, Finite 4]" by code_simp
  have f: "hdu_field (lc_hdulist lc_table) ''PDCSAP_FLUX'' =
      Inr [NaN, Finite 11, NaN, Finite 13, Finite 14]" by code_simp
  have e: "hdu_field (lc_hdulist lc_table) ''PDCSAP_FLUX_ERR'' =
      Inr [NaN, NaN, Finite 1, Finite 1, Finite 1]" by code_simp
  have q: "hdu_field (lc_hdulist lc_table) ''QUALITY'' =
      Inr [Finite 0, Finite 0, Finite 0, Finite 8, Finite 0]" by code_simp
  have i: "0 < (1::nat)" "1 < length [Finite 0, Finite 0, Finite 0, Finite 8, Finite 0]"
    by simp_all
  have good: "np_eq ([Finite 0, Finite 0, Finite 0, Finite 8, Finite 0] ! 1) 0"
    "isfinite ([NaN, Finite 11, NaN, Finite 13, Finite 14] ! 1)"
    by (simp_all add: np_eq_def isfinite_def)
  have keep: "filter (\<lambda>i. np_eq ([Finite 0, Finite 0, Finite 0, Finite 8, Finite 0] ! i) 0 \<and>
                 isfinite ([NaN, Finite 11, NaN, Finite 13, Finite 14] ! i))
               [1..<length [Finite 0, Finite 0, Finite 0, Finite 8, Finite 0]] = [1, 4]"
    by code_simp
  from flux_err_not_tested [OF run refl opened t f e q i good]
  have "dict_get d ''flux_err'' = Inr (PyArray [NaN, Finite 1]) \<and>
        [NaN, NaN, Finite 1, Finite 1, Finite 1] ! 1 \<in> set [NaN, Finite 1]"
    unfolding keep Let_def by simp
  with e show ?thesis by (simp add: run and_then_def isfinite_def)
qed

text \<open>The result depends neither on \<^verbatim>\<open>filename\<close> nor on \<^verbatim>\<open>pdc\<close>.\<close>

lemma filename_pdc_unused:
  "read_tess_lightcurve g fits_open f1 p1 q = read_tess_lightcurve g fits_open f2 p2 q"
  by (simp add: read_tess_lightcurve_def)

text \<open>
  C1: the flag selects the flux fields, \<^verbatim>\<open>PDCSAP_FLUX\<close> when true and \<^verbatim>\<open>SAP_FLUX\<close>
  when false. The code reads \<^verbatim>\<open>PDCSAP_FLUX\<close> for both values: on a file whose two
  fluxes differ, the call with the flag false returns the corrected flux, the same as
  the call with the flag true.
\<close>

theorem pdc_flag_ignored:
  "hdu_field (lc_hdulist lc_table) ''SAP_FLUX'' =
     Inr [NaN, Finite 21, Finite 22, Finite 23, Finite 24] \<and>
   hdu_field (lc_hdulist lc_table) ''PDCSAP_FLUX'' =
     Inr [NaN, Finite 11, NaN, Finite 13, Finite 14] \<and>
   and_then (read_tess_lightcurve (Some ''lc.fits'') lc_open ''lc.fits'' False 0)
     (\<lambda>d. dict_get d ''flux'') = Inr (PyArray [Finite 11, Finite 14]) \<and>
   and_then (read_tess_lightcurve (Some ''lc.fits'') lc_open ''lc.fits'' True 0)
     (\<lambda>d. dict_get d ''flux'') = Inr (PyArray [Finite 11, Finite 14])"
  by code_simp

text \<open>
  C4: the file that is opened is the one named by the parameter \<^verbatim>\<open>filename\<close>. The code
  opens the global name \<^verbatim>\<open>fname\<close>: with that name unbound the call raises NameError
  for a readable file, and with it bound the call reads that file although the parameter
  names a path that cannot be opened.
\<close>

theorem filename_not_opened:
  "read_tess_lightcurve None lc_open ''lc.fits'' True 0 = Inl NameError \<and>
   isl (lc_open ''missing.fits'') \<and>
   and_then (read_tess_lightcurve (Some ''lc.fits'') lc_open ''missing.fits'' True 0)
     (\<lambda>d. dict_get d ''time'') = Inr (PyArray [Finite 1, Finite 4])"
  by code_simp

end
